theory Spec2Isabelle
  imports Complex_Main
begin

section \<open>Python values\<close>

text \<open>
  The program is numpy/pandas code over double-precision floats. Floats are idealised
  as \<^typ>\<open>real\<close>; a \<open>NaN\<close> cell of a table is \<open>None\<close>. A Python exception is a value of
  \<open>py_error\<close> and a function that can raise returns \<open>py_error + 'a\<close>. What the
  program prints is a list of \<open>message\<close>s.
\<close>

datatype py_error =
  AttributeError | TypeError | IndexError | ValueError | UserWarning | UnboundLocalError

datatype message =
    LoadOutsideMesh          \<comment> \<open>"Load not applied! The chosen elevation is outside the mesh. ..."\<close>
  | LoadNotMeshed            \<comment> \<open>"Load not applied! The chosen elevation is not meshed as a node. ..."\<close>
  | SupportOutsideMesh       \<comment> \<open>"Support not applied! The chosen elevation is outside the mesh. ..."\<close>
  | SupportNotMeshed         \<comment> \<open>"Support not applied! The chosen elevation is not meshed as a node. ..."\<close>
  | CannotConverge           \<comment> \<open>"Cannot converge. Failure of the pile-soil system. ..."\<close>
  | ConvergedAt int          \<comment> \<open>"Converged at iteration no. {iter_no}"\<close>
  | NotConverged100          \<comment> \<open>"Not converged after 100 iterations."\<close>

section \<open>construct.py: the data\<close>

text \<open>
  \<open>Layer\<close> and \<open>SoilProfile\<close> keep the fields the mesh and the stress table read.
\<close>

record layer =
  layer_top :: real
  layer_bottom :: real
  layer_weight :: real

record soil_profile =
  soil_top_elevation :: real
  water_elevation :: real
  layers :: "layer list"

text \<open>
  \<open>Pile\<close>: the top elevation and the sections, top to bottom, each with its length,
  diameter and wall thickness (the three lists of \<open>pile_sections\<close>, row by row).
  \<open>pile_row\<close> is a row of the table \<open>Pile.data\<close>.
\<close>

record pile =
  pile_top_elevation :: real
  pile_sections :: "(real \<times> real \<times> real) list"

record pile_row =
  row_elevation :: real
  row_diameter :: real
  row_wall_thickness :: real
  row_area :: real
  row_inertia :: real

text \<open>
  A row of \<open>Model.soil_properties\<close>. A cell that can hold \<open>NaN\<close> is an option.
\<close>

record soil_row =
  x_top :: real
  x_bottom :: real
  top_soil_layer :: "real option"
  unit_weight :: "real option"
  xg_top :: real
  xg_bottom :: real
  sigma_v_top :: "real option"
  sigma_v_bottom :: "real option"

text \<open>
  A \<open>Model\<close> instance after \<open>_postinit\<close>: \<open>nodes_x\<close> is the column
  \<open>nodes_coordinates["x [m]"]\<close>, \<open>element_coordinates\<close> the columns (x_top, x_bottom),
  \<open>element_properties\<close> the row of \<open>Pile.data\<close> merged to each element;
  \<open>global_forces\<close> holds the columns (Px, Py, Mz), \<open>global_disp\<close> the columns (Tx, Ty, Rz)
  and \<open>global_restrained\<close> the boolean columns (Tx, Ty, Rz), one row per node, the row
  label being the node number. The spring tables, filled by the soil models, are left out.
\<close>

record model =
  soil :: "soil_profile option"
  nodes_x :: "real list"
  element_coordinates :: "(real \<times> real) list"
  element_properties :: "pile_row option list"
  soil_properties :: "soil_row list"
  global_forces :: "(real \<times> real \<times> real) list"
  global_disp :: "(real \<times> real \<times> real) list"
  global_restrained :: "(bool \<times> bool \<times> bool) list"

section \<open>construct.py: Pile and SoilProfile\<close>

text \<open>
  \<open>Pile._postinit\<close> builds the table \<open>Pile.data\<close>, two rows per section (its top and its
  bottom), with the area and the second moment of area of the circular section.
\<close>

definition pile_row_of :: "real \<Rightarrow> real \<Rightarrow> real \<Rightarrow> pile_row" where
  "pile_row_of e d wt =
     \<lparr>row_elevation = e, row_diameter = d, row_wall_thickness = wt,
      row_area = pi / 4 * (d ^ 2 - (d - 2 * wt) ^ 2),
      row_inertia = pi / 64 * (d ^ 4 - (d - 2 * wt) ^ 4)\<rparr>"

fun pile_data_from :: "real \<Rightarrow> (real \<times> real \<times> real) list \<Rightarrow> pile_row list" where
  "pile_data_from z [] = []"
| "pile_data_from z ((l, d, wt) # rest) =
     pile_row_of z d wt # pile_row_of (z - l) d wt # pile_data_from (z - l) rest"

definition pile_data :: "pile \<Rightarrow> pile_row list" where
  "pile_data p = pile_data_from (pile_top_elevation p) (pile_sections p)"

definition pile_bottom_elevation :: "pile \<Rightarrow> real" where
  "pile_bottom_elevation p = pile_top_elevation p - sum_list (map fst (pile_sections p))"

definition pile_length :: "pile \<Rightarrow> real" where
  "pile_length p = sum_list (map fst (pile_sections p))"

definition soil_bottom_elevation :: "soil_profile \<Rightarrow> real" where
  "soil_bottom_elevation sp =
     soil_top_elevation sp - sum_list (map (\<lambda>l. \<bar>layer_top l - layer_bottom l\<bar>) (layers sp))"

section \<open>construct.py: Model\<close>

text \<open>
  The root validator of \<open>Model\<close>. It reads \<open>values["soil"].bottom_elevation\<close> without a
  test for \<open>None\<close>: on \<open>soil = None\<close> the attribute access raises AttributeError.
\<close>

definition soil_and_pile_bottom_elevation_match :: "pile \<Rightarrow> soil_profile option \<Rightarrow> py_error + unit" where
  "soil_and_pile_bottom_elevation_match p s =
     (case s of
        None \<Rightarrow> Inl AttributeError
      | Some sp \<Rightarrow>
          if pile_bottom_elevation p < soil_bottom_elevation sp then Inl UserWarning
          else Inr ())"

subsection \<open>\<open>get_coordinates\<close>\<close>

text \<open>\<open>np.unique(x)[::-1]\<close>: the distinct values, in descending order.\<close>

definition np_unique_rev :: "real list \<Rightarrow> real list" where
  "np_unique_rev xs = rev (sort (remdups xs))"

text \<open>
  The primary discretisation: the elevations of \<open>Pile.data\<close>, the tops and bottoms of
  the soil layers (cut at the pile's bottom elevation when one lies below it) and the
  user's \<open>x2mesh\<close>.
\<close>

definition soil_elevations :: "pile \<Rightarrow> soil_profile \<Rightarrow> real list" where
  "soil_elevations p sp =
     (let se = map layer_top (layers sp) @ map layer_bottom (layers sp) in
      if list_ex (\<lambda>e. e < pile_bottom_elevation p) se
      then filter (\<lambda>e. e \<ge> pile_bottom_elevation p) (pile_bottom_elevation p # se)
      else se)"

definition primary_elevations :: "pile \<Rightarrow> soil_profile option \<Rightarrow> real list \<Rightarrow> real list" where
  "primary_elevations p s x2mesh =
     np_unique_rev (map row_elevation (pile_data p)
                    @ (case s of None \<Rightarrow> [] | Some sp \<Rightarrow> soil_elevations p sp)
                    @ x2mesh)"

text \<open>
  The inner loop \<open>while new_spacing > self.coarseness: divider += 1; new_spacing = spacing / divider\<close>.
  It does not end when the coarseness is not positive and the spacing is: the value is
  \<open>None\<close> then. The comparison is on exact reals here; on floats a spacing such as
  \<open>-0.7 - (-1.0) = 0.30000000000000004\<close> compares above a coarseness it equals exactly,
  and the loop runs once more.
\<close>

partial_function (option) find_divider :: "real \<Rightarrow> real \<Rightarrow> nat \<Rightarrow> real \<Rightarrow> (nat \<times> real) option" where
  "find_divider spacing coarseness divider new_spacing =
     (if new_spacing > coarseness
      then find_divider spacing coarseness (divider + 1) (spacing / real (divider + 1))
      else Some (divider, new_spacing))"

text \<open>
  One turn of \<open>for i in range(len(x) - 1)\<close> for \<open>a = x[i]\<close>, \<open>b = x[i + 1]\<close>:
  \<open>new_x = x[i] - np.arange(start=1, stop=divider) * new_spacing\<close>.
\<close>

definition subdivide :: "real \<Rightarrow> real \<Rightarrow> real \<Rightarrow> real list option" where
  "subdivide coarseness a b =
     (let spacing = a - b in
      case find_divider spacing coarseness 1 spacing of
        None \<Rightarrow> None
      | Some (divider, new_spacing) \<Rightarrow>
          Some (map (\<lambda>k. a - real k * new_spacing) [1..<divider]))"

fun secondary :: "real \<Rightarrow> real list \<Rightarrow> real list option" where
  "secondary coarseness (a # b # rest) =
     (case subdivide coarseness a b of
        None \<Rightarrow> None
      | Some new_x \<Rightarrow>
          (case secondary coarseness (b # rest) of
             None \<Rightarrow> None
           | Some x_secondary \<Rightarrow> Some (new_x @ x_secondary)))"
| "secondary coarseness [a] = Some []"
| "secondary coarseness [] = Some []"

definition mesh_elevations :: "pile \<Rightarrow> soil_profile option \<Rightarrow> real list \<Rightarrow> real \<Rightarrow> real list option" where
  "mesh_elevations p s x2mesh coarseness =
     (let x = primary_elevations p s x2mesh in
      case secondary coarseness x of
        None \<Rightarrow> None
      | Some x_secondary \<Rightarrow> Some (np_unique_rev (x @ x_secondary)))"

text \<open>
  \<open>DataFrame.round(3)\<close>: numpy's rounding to three decimals, halves to the even
  neighbour. On exact reals here; on floats a value that prints as a half (\<open>-2.0005\<close>)
  lies on one side of it and is rounded to that side.
\<close>

definition round_half_even :: "real \<Rightarrow> int" where
  "round_half_even y =
     (let f = \<lfloor>y\<rfloor> in
      if y - of_int f < 1 / 2 then f
      else if y - of_int f > 1 / 2 then f + 1
      else if even f then f else f + 1)"

definition round3 :: "real \<Rightarrow> real" where
  "round3 x = of_int (round_half_even (x * 1000)) / 1000"

text \<open>
  \<open>get_coordinates\<close>: the node column \<open>x [m]\<close> and the element columns
  (\<open>x_top [m]\<close>, \<open>x_bottom [m]\<close>) from \<open>x[:-1]\<close> and \<open>x[1:]\<close>, both rounded.
\<close>

definition get_coordinates ::
  "pile \<Rightarrow> soil_profile option \<Rightarrow> real list \<Rightarrow> real \<Rightarrow> (real list \<times> (real \<times> real) list) option" where
  "get_coordinates p s x2mesh coarseness =
     (case mesh_elevations p s x2mesh coarseness of
        None \<Rightarrow> None
      | Some x \<Rightarrow> Some (map round3 x, zip (map round3 (butlast x)) (map round3 (tl x))))"



subsection \<open>Element and soil properties\<close>

text \<open>
  \<open>pd.merge_asof(left, right, direction="forward")\<close> for one key of the left table:
  the first row of the right table, sorted ascending by its key, whose key is at or
  above the left key; \<open>NaN\<close> cells when there is none. Tables are sorted with
  \<open>sort_values\<close>; rows with equal keys are kept in their order here.
\<close>

definition merge_asof_forward :: "(real \<times> 'a) list \<Rightarrow> real \<Rightarrow> (real \<times> 'a) option" where
  "merge_asof_forward right x = find (\<lambda>(k, v). x \<le> k) (sort_key fst right)"

definition element_properties_of :: "pile \<Rightarrow> (real \<times> real) list \<Rightarrow> pile_row option list" where
  "element_properties_of p elems =
     rev (map (\<lambda>(t, b). map_option snd
                 (merge_asof_forward (map (\<lambda>r. (row_elevation r, r)) (pile_data p)) t))
            (sort_key fst elems))"

text \<open>\<open>get_soil_profile\<close>: the layers' tops and unit weights, by descending top.\<close>

definition get_soil_profile :: "soil_profile \<Rightarrow> (real \<times> real) list" where
  "get_soil_profile sp = rev (sort_key fst (map (\<lambda>l. (layer_top l, layer_weight l)) (layers sp)))"

text \<open>\<open>Series.cumsum()\<close>: a \<open>NaN\<close> entry stays \<open>NaN\<close> and is skipped by the running sum.\<close>

fun cumsum_from :: "real \<Rightarrow> real option list \<Rightarrow> real option list" where
  "cumsum_from acc [] = []"
| "cumsum_from acc (None # xs) = None # cumsum_from acc xs"
| "cumsum_from acc (Some v # xs) = Some (acc + v) # cumsum_from (acc + v) xs"

text \<open>
  \<open>np.insert(arr, idxs, v)\<close> for distinct positions \<open>idxs\<close> within \<open>0 .. len(arr)\<close>:
  \<open>v\<close> is put in front of each of these positions of \<open>arr\<close>.
\<close>

fun np_insert_from :: "nat \<Rightarrow> 'a list \<Rightarrow> nat list \<Rightarrow> 'a \<Rightarrow> 'a list" where
  "np_insert_from i [] idxs v = (if i \<in> set idxs then [v] else [])"
| "np_insert_from i (x # xs) idxs v =
     (if i \<in> set idxs then [v] else []) @ x # np_insert_from (Suc i) xs idxs v"

definition np_insert :: "'a list \<Rightarrow> nat list \<Rightarrow> 'a \<Rightarrow> 'a list" where
  "np_insert arr idxs v = np_insert_from 0 arr idxs v"

text \<open>
  The soil table of \<open>_postinit\<close>: the layer found for each element's top, the depths below
  ground, the unit weight less 10 for an element whose top is at or below the water
  elevation, and the vertical stress at the bottom (the running sum of thickness times
  unit weight) and at the top (the same column one row later, with \<open>0.0\<close> inserted at the
  row whose top is the ground elevation). Assigning a column of the wrong length raises
  ValueError.
\<close>

definition soil_properties_of :: "soil_profile \<Rightarrow> (real \<times> real) list \<Rightarrow> py_error + soil_row list" where
  "soil_properties_of sp elems =
     (let merged = rev (map (\<lambda>(t, b). (t, b, merge_asof_forward (get_soil_profile sp) t))
                          (sort_key fst elems));
          weight = map (\<lambda>(t, b, l).
                      if t \<le> water_elevation sp then map_option (\<lambda>(k, w). w - 10) l
                      else map_option snd l) merged;
          s = map2 (\<lambda>(t, b, l) w. map_option (\<lambda>w. (t - b) * w) w) merged weight;
          sigma_bottom = cumsum_from 0 s;
          sigma_top = np_insert (butlast sigma_bottom)
                        (filter (\<lambda>i. fst (merged ! i) = soil_top_elevation sp) [0..<length merged])
                        (Some 0)
      in if length sigma_top \<noteq> length merged then Inl ValueError
         else Inr (map (\<lambda>i. case merged ! i of (t, b, l) \<Rightarrow>
                      \<lparr>x_top = t, x_bottom = b, top_soil_layer = map_option fst l,
                       unit_weight = weight ! i,
                       xg_top = t - soil_top_elevation sp, xg_bottom = b - soil_top_elevation sp,
                       sigma_v_top = sigma_top ! i, sigma_v_bottom = sigma_bottom ! i\<rparr>)
                   [0..<length merged]))"






subsection \<open>\<open>_postinit\<close> and \<open>Model.create\<close>\<close>

text \<open>
  The tables as \<open>_postinit\<close> initialises them: copies of the node table with three columns
  of \<open>0\<close> (or \<open>False\<close>).
\<close>

definition init_tables ::
  "soil_profile option \<Rightarrow> real list \<Rightarrow> (real \<times> real) list \<Rightarrow> pile_row option list \<Rightarrow> soil_row list \<Rightarrow> model" where
  "init_tables s xs elems eprops sprops =
     \<lparr>soil = s, nodes_x = xs, element_coordinates = elems, element_properties = eprops,
      soil_properties = sprops,
      global_forces = map (\<lambda>_. (0, 0, 0)) xs,
      global_disp = map (\<lambda>_. (0, 0, 0)) xs,
      global_restrained = map (\<lambda>_. (False, False, False)) xs\<rparr>"

text \<open>
  \<open>_postinit\<close>: \<open>None\<close> when \<open>get_coordinates\<close> does not return. \<open>get_soil_profile\<close> reads
  \<open>self.soil.layers\<close>, which raises AttributeError on \<open>soil = None\<close>.
\<close>

definition Model_postinit ::
  "pile \<Rightarrow> soil_profile option \<Rightarrow> real list \<Rightarrow> real \<Rightarrow> (py_error + model) option" where
  "Model_postinit p s x2mesh coarseness =
     (case get_coordinates p s x2mesh coarseness of
        None \<Rightarrow> None
      | Some (nodes, elems) \<Rightarrow>
          (case s of
             None \<Rightarrow> Some (Inl AttributeError)
           | Some sp \<Rightarrow>
               (case soil_properties_of sp elems of
                  Inl e \<Rightarrow> Some (Inl e)
                | Inr sprops \<Rightarrow>
                    Some (Inr (init_tables s nodes elems (element_properties_of p elems) sprops)))))"

text \<open>
  \<open>Model.create(name, pile, soil, x2mesh, coarseness)\<close>: the constructor runs the root
  validator, then \<open>_postinit\<close> runs.
\<close>

definition Model_create ::
  "pile \<Rightarrow> soil_profile option \<Rightarrow> real list \<Rightarrow> real \<Rightarrow> (py_error + model) option" where
  "Model_create p s x2mesh coarseness =
     (case soil_and_pile_bottom_elevation_match p s of
        Inl e \<Rightarrow> Some (Inl e)
      | Inr _ \<Rightarrow> Model_postinit p s x2mesh coarseness)"

subsection \<open>Two models\<close>

text \<open>
  The pile of the documentation (40 m long, diameter 2 m, wall 0.08 m) in 40 m of clay,
  meshed with a coarseness of 10 m; and a 10 m pile in 10 m of clay, meshed as one element.
\<close>

definition pile40 :: pile where
  "pile40 = \<lparr>pile_top_elevation = 0, pile_sections = [(40, 2, 8 / 100)]\<rparr>"

definition clay40 :: soil_profile where
  "clay40 = \<lparr>soil_top_elevation = 0, water_elevation = 0,
             layers = [\<lparr>layer_top = 0, layer_bottom = -40, layer_weight = 18\<rparr>]\<rparr>"

text \<open>
  The pile of the class documentation, two sections of 10 m and 30 m, which the
  documentation meshes without a soil profile:
  \<open>Model.create(name="Example without soil", pile=p, coarseness=5)\<close>.
\<close>

definition pile_doc :: pile where
  "pile_doc = \<lparr>pile_top_elevation = 0,
               pile_sections = [(10, 75 / 10, 7 / 100), (30, 75 / 10, 8 / 100)]\<rparr>"

definition pile10 :: pile where
  "pile10 = \<lparr>pile_top_elevation = 0, pile_sections = [(10, 2, 8 / 100)]\<rparr>"

definition clay10 :: soil_profile where
  "clay10 = \<lparr>soil_top_elevation = 0, water_elevation = 0,
             layers = [\<lparr>layer_top = 0, layer_bottom = -10, layer_weight = 18\<rparr>]\<rparr>"




definition created :: "(py_error + model) option \<Rightarrow> model" where
  "created r = (case r of Some (Inr m) \<Rightarrow> m)"

definition mesh40 :: model where
  "mesh40 = created (Model_create pile40 (Some clay40) [] 10)"

definition mesh10 :: model where
  "mesh10 = created (Model_create pile10 (Some clay10) [] 10)"

section \<open>construct.py: the boundary-condition setters\<close>

text \<open>
  \<open>numpy.isclose(a, b, atol=atol)\<close> with the default \<open>rtol = 1e-05\<close>:
  \<open>absolute(a - b) <= atol + rtol * absolute(b)\<close>.
\<close>

definition np_isclose :: "real \<Rightarrow> real \<Rightarrow> real \<Rightarrow> bool" where
  "np_isclose a b atol = (\<bar>a - b\<bar> \<le> atol + (1 / 100000) * \<bar>b\<bar>)"

text \<open>\<open>check = np.isclose(nodes_elevations, np.tile(elevation, ...), atol=0.001)\<close>\<close>

definition node_check :: "real list \<Rightarrow> real \<Rightarrow> bool list" where
  "node_check nodes_elevations elevation =
     map (\<lambda>a. np_isclose a elevation (1 / 1000)) nodes_elevations"

text \<open>\<open>np.where(check == True)[0]\<close>: the positions that hold \<open>True\<close>, ascending.\<close>

definition np_where :: "bool list \<Rightarrow> nat list" where
  "np_where check = filter (\<lambda>i. check ! i) [0..<length check]"

text \<open>\<open>int(array)\<close>: only an array of one entry converts; any other size raises TypeError.\<close>

definition int_of_array :: "nat list \<Rightarrow> py_error + nat" where
  "int_of_array a = (case a of [i] \<Rightarrow> Inr i | _ \<Rightarrow> Inl TypeError)"

text \<open>\<open>if v is not None: table.loc[node_idx, column] = v\<close>, for one cell.\<close>

definition assign_if_given :: "'a option \<Rightarrow> 'a \<Rightarrow> 'a" where
  "assign_if_given v old = (case v of None \<Rightarrow> old | Some x \<Rightarrow> x)"

text \<open>
  The \<open>else\<close> branch shared by the three setters: \<open>.iloc[0]\<close> and \<open>.iloc[-1]\<close> of the node
  column (IndexError on an empty column, re-raised by the handler), then one of two
  printed diagnostics.
\<close>

definition not_applied :: "message \<Rightarrow> message \<Rightarrow> real \<Rightarrow> model \<Rightarrow> py_error + (model \<times> message list)" where
  "not_applied outside unmeshed elevation m =
     (case nodes_x m of
        [] \<Rightarrow> Inl IndexError
      | _ \<Rightarrow>
          if elevation > hd (nodes_x m) \<or> elevation < last (nodes_x m)
          then Inr (m, [outside])
          else Inr (m, [unmeshed]))"

definition set_pointload ::
  "real \<Rightarrow> real option \<Rightarrow> real option \<Rightarrow> real option \<Rightarrow> model \<Rightarrow> py_error + (model \<times> message list)" where
  "set_pointload elevation Py Px Mz m =
     (let check = node_check (nodes_x m) elevation in
      if True \<in> set check then
        (case int_of_array (np_where check) of
           Inl e \<Rightarrow> Inl e
         | Inr node_idx \<Rightarrow>
             Inr (m\<lparr>global_forces := (global_forces m)[node_idx :=
                       (case global_forces m ! node_idx of (px, py, mz) \<Rightarrow>
                          (assign_if_given Px px, assign_if_given Py py, assign_if_given Mz mz))]\<rparr>,
                  []))
      else not_applied LoadOutsideMesh LoadNotMeshed elevation m)"

definition set_pointdisplacement ::
  "real \<Rightarrow> real option \<Rightarrow> real option \<Rightarrow> real option \<Rightarrow> model \<Rightarrow> py_error + (model \<times> message list)" where
  "set_pointdisplacement elevation Ty Tx Rz m =
     (let check = node_check (nodes_x m) elevation in
      if True \<in> set check then
        (case int_of_array (np_where check) of
           Inl e \<Rightarrow> Inl e
         | Inr node_idx \<Rightarrow>
             Inr (m\<lparr>global_disp := (global_disp m)[node_idx :=
                       (case global_disp m ! node_idx of (tx, ty, rz) \<Rightarrow>
                          (assign_if_given Tx tx, assign_if_given Ty ty, assign_if_given Rz rz))],
                     global_restrained := (global_restrained m)[node_idx :=
                       (case global_restrained m ! node_idx of (tx, ty, rz) \<Rightarrow>
                          (assign_if_given (map_option (\<lambda>v. v > 0) Tx) tx,
                           assign_if_given (map_option (\<lambda>v. v > 0) Ty) ty,
                           assign_if_given (map_option (\<lambda>v. v > 0) Rz) rz))]\<rparr>,
                  []))
      else not_applied SupportOutsideMesh SupportNotMeshed elevation m)"

definition set_support ::
  "real \<Rightarrow> bool \<Rightarrow> bool \<Rightarrow> bool \<Rightarrow> model \<Rightarrow> py_error + (model \<times> message list)" where
  "set_support elevation Ty Tx Rz m =
     (let check = node_check (nodes_x m) elevation in
      if True \<in> set check then
        (case int_of_array (np_where check) of
           Inl e \<Rightarrow> Inl e
         | Inr node_idx \<Rightarrow>
             Inr (m\<lparr>global_restrained := (global_restrained m)[node_idx := (Tx, Ty, Rz)]\<rparr>, []))
      else not_applied SupportOutsideMesh SupportNotMeshed elevation m)"

text \<open>The three tables have one row per node, as \<open>_postinit\<close> builds them.\<close>

definition wf_tables :: "model \<Rightarrow> bool" where
  "wf_tables m = (length (global_forces m) = length (nodes_x m) \<and>
                  length (global_disp m) = length (nodes_x m) \<and>
                  length (global_restrained m) = length (nodes_x m))"

text \<open>
  For stating what two calls at one node leave in a cell: the value the later call gave,
  else the value the earlier call gave, else the cell as it was.
\<close>

definition last_given :: "'a option \<Rightarrow> 'a option \<Rightarrow> 'a \<Rightarrow> 'a" where
  "last_given v2 v1 old =
     (case v2 of Some x \<Rightarrow> x | None \<Rightarrow> (case v1 of Some x \<Rightarrow> x | None \<Rightarrow> old))"

section \<open>analyze.py: the nonlinear Winkler analysis\<close>

text \<open>
  Global vectors are lists indexed by degree of freedom, the stiffness matrix a list of
  rows. The numpy operations the loop uses, on arrays of matching shape:
  \<open>a - b\<close>, \<open>a + b\<close>, \<open>K.dot(d)\<close>, \<open>np.linalg.norm(v)\<close> and the mask selection
  \<open>v[~supports]\<close>.
\<close>

type_synonym vec = "real list"
type_synonym mat = "real list list"

definition vsub :: "vec \<Rightarrow> vec \<Rightarrow> vec" where
  "vsub a b = map2 (-) a b"

definition vadd :: "vec \<Rightarrow> vec \<Rightarrow> vec" where
  "vadd a b = map2 (+) a b"

definition mat_vec :: "mat \<Rightarrow> vec \<Rightarrow> vec" where
  "mat_vec K d = map (\<lambda>row. sum_list (map2 (*) row d)) K"

definition np_norm :: "vec \<Rightarrow> real" where
  "np_norm v = sqrt (sum_list (map (\<lambda>x. x * x) v))"

definition unrestrained :: "vec \<Rightarrow> bool list \<Rightarrow> vec" where
  "unrestrained v supports = map fst (filter (\<lambda>(x, r). \<not> r) (zip v supports))"

text \<open>
  The functions of \<open>openpile.core.kernel\<close> that \<open>simple_winkler_analysis\<close> calls. The
  module is not among the sources, so the analysis is modelled over an arbitrary kernel.
  \<open>solve_equations\<close> returns \<open>None\<close> where the call raises \<open>np.linalg.LinAlgError\<close>.
\<close>

datatype stiffness_kind = Initial | Secant | Tangent

record kernel =
  mesh_to_global_force_dof_vector :: "(real \<times> real \<times> real) list \<Rightarrow> vec"
  mesh_to_global_disp_dof_vector :: "(real \<times> real \<times> real) list \<Rightarrow> vec"
  mesh_to_global_restrained_dof_vector :: "(bool \<times> bool \<times> bool) list \<Rightarrow> bool list"
  build_stiffness_matrix :: "model \<Rightarrow> vec \<Rightarrow> stiffness_kind \<Rightarrow> mat"
  solve_equations :: "mat \<Rightarrow> vec \<Rightarrow> vec \<Rightarrow> bool list \<Rightarrow> (vec \<times> vec) option"
  pile_internal_forces :: "model \<Rightarrow> vec \<Rightarrow> vec"

text \<open>
  The local variables of the loop. \<open>st_Q\<close> is \<open>None\<close> as long as the name \<open>Q\<close> is unbound.
  \<open>printed\<close> collects the output of \<open>print\<close>; \<open>n_solves\<close> counts the calls of
  \<open>kernel.solve_equations\<close>, one per pass through the loop body.
\<close>

record wstate =
  st_K :: mat
  st_Rg :: vec
  st_U :: vec
  st_d :: vec
  st_Q :: "vec option"
  iter_no :: int
  printed :: "message list"
  n_solves :: nat

text \<open>
  One pass through the body of \<open>while iter_no <= max_iter\<close>: it ends in a \<open>break\<close> (the
  solver raised, or convergence was accepted) or at the end of the body, with
  \<open>iter_no\<close> bumped.
\<close>

datatype pass_end = Break wstate | EndOfBody wstate

definition winkler_pass :: "kernel \<Rightarrow> model \<Rightarrow> vec \<Rightarrow> bool list \<Rightarrow> wstate \<Rightarrow> pass_end" where
  "winkler_pass k m F supports s =
     (case solve_equations k (st_K s) (st_Rg s) (st_U s) supports of
        None \<Rightarrow> Break (s\<lparr>printed := printed s @ [CannotConverge], n_solves := Suc (n_solves s)\<rparr>)
      | Some (u_inc, Q) \<Rightarrow>
          (let F_ext = vsub F Q;
               control = np_norm F_ext;
               d = vadd (st_d s) u_inc;
               K_secant = build_stiffness_matrix k m d Secant;
               F_int = map uminus (mat_vec K_secant d);
               Rg = vadd F_ext F_int;
               s1 = s\<lparr>st_Rg := Rg, st_d := d, st_Q := Some Q, n_solves := Suc (n_solves s)\<rparr>
           in if np_norm (unrestrained Rg supports) < 1 / 10000 * control \<and> iter_no s > 0
              then Break (s1\<lparr>printed := printed s @ [ConvergedAt (iter_no s)]\<rparr>)
              else EndOfBody
                     (s1\<lparr>printed := (if iter_no s = 100 then printed s @ [NotConverged100]
                                      else printed s),
                          st_K := build_stiffness_matrix k m d Tangent,
                          st_U := map (\<lambda>_. 0) (st_U s),
                          iter_no := iter_no s + 1\<rparr>)))"

lemma winkler_pass_bumps:
  "winkler_pass k m F supports s = EndOfBody s' \<Longrightarrow> iter_no s' = iter_no s + 1"
  by (auto simp: winkler_pass_def Let_def split: option.splits prod.splits if_splits)

function winkler_loop :: "kernel \<Rightarrow> model \<Rightarrow> vec \<Rightarrow> bool list \<Rightarrow> int \<Rightarrow> wstate \<Rightarrow> wstate" where
  "winkler_loop k m F supports max_iter s =
     (if iter_no s \<le> max_iter then
        (case winkler_pass k m F supports s of
           Break s' \<Rightarrow> s'
         | EndOfBody s' \<Rightarrow> winkler_loop k m F supports max_iter s')
      else s)"
  by pat_completeness auto
termination
  by (relation "measure (\<lambda>(k, m, F, supports, max_iter, s). nat (max_iter + 1 - iter_no s))")
     (auto dest: winkler_pass_bumps)

text \<open>
  \<open>AnalyzeResult\<close>: the three vectors its tables are reshaped from, the displacements
  \<open>d\<close> (\<open>disp_to_df\<close>), the internal forces \<open>q_int\<close> (\<open>structural_forces_to_df\<close>) and the
  reactions \<open>Q\<close> (\<open>reaction_forces_to_df\<close>). The spring mobilisation tables are further
  kernel functions of \<open>d\<close> and are left out.
\<close>

record analyze_result =
  res_d :: vec
  res_q_int :: vec
  res_Q :: vec

text \<open>
  The statements after the loop. Reading \<open>Q\<close> while it is unbound raises
  UnboundLocalError.
\<close>

definition winkler_results :: "kernel \<Rightarrow> model \<Rightarrow> wstate \<Rightarrow> py_error + analyze_result option" where
  "winkler_results k m s =
     (let q_int = pile_internal_forces k m (st_d s) in
      case st_Q s of
        None \<Rightarrow> Inl UnboundLocalError
      | Some Q \<Rightarrow> Inr (Some \<lparr>res_d = st_d s, res_q_int = q_int, res_Q = Q\<rparr>))"

text \<open>The state on entry to the loop, for a model with a soil profile.\<close>

definition winkler_init :: "kernel \<Rightarrow> model \<Rightarrow> wstate" where
  "winkler_init k m =
     (let F = mesh_to_global_force_dof_vector k (global_forces m);
          U = mesh_to_global_disp_dof_vector k (global_disp m);
          d = map (\<lambda>_. 0) U;
          K = build_stiffness_matrix k m d Initial
      in \<lparr>st_K = K, st_Rg = F, st_U = U, st_d = d, st_Q = None, iter_no = 0,
          printed = [], n_solves = 0\<rparr>)"

text \<open>
  \<open>simple_winkler_analysis(model, max_iter)\<close>: what the call returns or raises, and what it
  printed. With \<open>model.soil is None\<close> the body only builds a \<open>UserWarning\<close> object (it is not
  raised) and the function ends without a \<open>return\<close>: the value is \<open>None\<close>.
\<close>

definition simple_winkler_analysis ::
  "kernel \<Rightarrow> model \<Rightarrow> int \<Rightarrow> (py_error + analyze_result option) \<times> message list" where
  "simple_winkler_analysis k m max_iter =
     (case soil m of
        None \<Rightarrow> (Inr None, [])
      | Some _ \<Rightarrow>
          (let F = mesh_to_global_force_dof_vector k (global_forces m);
               supports = mesh_to_global_restrained_dof_vector k (global_restrained m);
               s = winkler_loop k m F supports max_iter (winkler_init k m)
           in (winkler_results k m s, printed s)))"

text \<open>
  The state after \<open>n\<close> passes that all ran to the end of the loop body, \<open>None\<close> when the
  loop ends before.
\<close>

fun after_passes ::
  "kernel \<Rightarrow> model \<Rightarrow> vec \<Rightarrow> bool list \<Rightarrow> int \<Rightarrow> nat \<Rightarrow> wstate \<Rightarrow> wstate option" where
  "after_passes k m F supports max_iter 0 s = Some s"
| "after_passes k m F supports max_iter (Suc n) s =
     (if iter_no s \<le> max_iter then
        (case winkler_pass k m F supports s of
           Break _ \<Rightarrow> None
         | EndOfBody s' \<Rightarrow> after_passes k m F supports max_iter n s')
      else None)"

text \<open>
  A pass declares convergence: it prints "Converged at iteration no. i" and leaves the
  loop.
\<close>

definition convergence_declared :: "wstate \<Rightarrow> pass_end \<Rightarrow> bool" where
  "convergence_declared s p =
     (case p of
        Break s' \<Rightarrow> printed s' = printed s @ [ConvergedAt (iter_no s)]
      | EndOfBody _ \<Rightarrow> False)"


declare winkler_loop.simps [simp del]

subsection \<open>A kernel of uncoupled springs, to run the analysis on\<close>

text \<open>
  A system in which every degree of freedom rests on its own spring and the pile adds no
  coupling: the stiffness matrix is diagonal. The spring is given by its initial
  stiffness and by its secant and tangent stiffness as functions of the displacement.
  The solver is the linear solve over the free degrees of freedom with prescribed
  displacements \<open>U\<close> at the restrained ones: \<open>d = F / K\<close> where free and \<open>d = U\<close> where
  restrained, reactions \<open>Q = K U - F\<close> at the restrained degrees of freedom, and it fails
  when a free degree of freedom has no stiffness (singular reduced matrix).
\<close>

definition diag :: "vec \<Rightarrow> mat" where
  "diag xs = map (\<lambda>i. map (\<lambda>j. if i = j then xs ! i else 0) [0..<length xs]) [0..<length xs]"

definition spring_solve :: "mat \<Rightarrow> vec \<Rightarrow> vec \<Rightarrow> bool list \<Rightarrow> (vec \<times> vec) option" where
  "spring_solve K F U restraints =
     (let dofs = [0..<length F] in
      if list_ex (\<lambda>i. \<not> restraints ! i \<and> K ! i ! i = 0) dofs then None
      else Some (map (\<lambda>i. if restraints ! i then U ! i else F ! i / (K ! i ! i)) dofs,
                 map (\<lambda>i. if restraints ! i then K ! i ! i * U ! i - F ! i else 0) dofs))"

definition spring_kernel :: "real \<Rightarrow> (real \<Rightarrow> real) \<Rightarrow> (real \<Rightarrow> real) \<Rightarrow> kernel" where
  "spring_kernel k0 ks kt =
     \<lparr>mesh_to_global_force_dof_vector = (\<lambda>t. concat (map (\<lambda>(a, b, c). [a, b, c]) t)),
      mesh_to_global_disp_dof_vector = (\<lambda>t. concat (map (\<lambda>(a, b, c). [a, b, c]) t)),
      mesh_to_global_restrained_dof_vector = (\<lambda>t. concat (map (\<lambda>(a, b, c). [a, b, c]) t)),
      build_stiffness_matrix = (\<lambda>m d kind.
         diag (map (case kind of Initial \<Rightarrow> (\<lambda>u. k0) | Secant \<Rightarrow> ks | Tangent \<Rightarrow> kt) d)),
      solve_equations = spring_solve,
      pile_internal_forces = (\<lambda>m d. map (\<lambda>_. 0) d)\<rparr>"

text \<open>
  An elastic, perfectly plastic spring: stiffness 1 up to a displacement of 10, constant
  resistance 10 beyond (no tangent stiffness there).
\<close>

definition plastic_secant :: "real \<Rightarrow> real" where
  "plastic_secant u = (if \<bar>u\<bar> \<le> 10 then 1 else 10 / \<bar>u\<bar>)"

definition plastic_tangent :: "real \<Rightarrow> real" where
  "plastic_tangent u = (if \<bar>u\<bar> \<le> 10 then 1 else 0)"

text \<open>
  A softening spring with three branches: slope 1 up to a displacement of 10, slope 1/2
  up to 25, slope 1/4 beyond.
\<close>

definition soft_resistance :: "real \<Rightarrow> real" where
  "soft_resistance u =
     (if u \<le> 10 then u else if u \<le> 25 then 10 + (u - 10) / 2 else 35 / 2 + (u - 25) / 4)"

definition soft_secant :: "real \<Rightarrow> real" where
  "soft_secant u = (if u = 0 then 1 else soft_resistance \<bar>u\<bar> / \<bar>u\<bar>)"

definition soft_tangent :: "real \<Rightarrow> real" where
  "soft_tangent u = (if \<bar>u\<bar> \<le> 10 then 1 else if \<bar>u\<bar> \<le> 25 then 1 / 2 else 1 / 4)"

definition plastic_springs :: kernel where
  "plastic_springs = spring_kernel 1 plastic_secant plastic_tangent"

definition soft_springs :: kernel where
  "soft_springs = spring_kernel 1 soft_secant soft_tangent"

text \<open>
  \<open>mesh10\<close> with a lateral load of 20 at the head, as
  \<open>set_pointload(elevation=0, Py=20)\<close> leaves it.
\<close>

definition mesh10_lateral :: model where
  "mesh10_lateral = mesh10\<lparr>global_forces := [(0, 20, 0), (0, 0, 0)]\<rparr>"

text \<open>
  \<open>mesh10\<close> after \<open>set_support(elevation=0, Tx=True)\<close> and
  \<open>set_pointload(elevation=0, Px=5000, Py=20)\<close>: the head is held axially, and carries
  an axial load of 5000 and a lateral load of 20.
\<close>

definition mesh10_held :: model where
  "mesh10_held = mesh10\<lparr>global_forces := [(5000, 20, 0), (0, 0, 0)],
                         global_restrained := [(True, False, False), (False, False, False)]\<rparr>"

subsection \<open>States of the runs used below\<close>

text \<open>Six degrees of freedom (two nodes): all zero, none restrained, the first restrained.\<close>

abbreviation zeros6 :: vec where
  "zeros6 \<equiv> [0, 0, 0, 0, 0, 0]"

abbreviation all_free :: "bool list" where
  "all_free \<equiv> [False, False, False, False, False, False]"

abbreviation head_held :: "bool list" where
  "head_held \<equiv> [True, False, False, False, False, False]"

text \<open>
  \<open>mesh10_lateral\<close> on plastic springs: the state on entry to the loop and the state after
  the first pass. The lateral load of 20 exceeds the spring's capacity of 10, so the
  tangent stiffness of that degree of freedom is 0 after the first pass.
\<close>

definition lateral0 :: wstate where
  "lateral0 = \<lparr>st_K = diag [1, 1, 1, 1, 1, 1], st_Rg = [0, 20, 0, 0, 0, 0], st_U = zeros6,
               st_d = zeros6, st_Q = None, iter_no = 0, printed = [], n_solves = 0\<rparr>"

definition lateral1 :: wstate where
  "lateral1 = \<lparr>st_K = diag [1, 0, 1, 1, 1, 1], st_Rg = [0, 10, 0, 0, 0, 0], st_U = zeros6,
               st_d = [0, 20, 0, 0, 0, 0], st_Q = Some zeros6, iter_no = 1, printed = [],
               n_solves = 1\<rparr>"


text \<open>
  \<open>mesh10\<close> with a lateral load of 5 at the head, within the elastic range of the plastic
  spring: the state on entry and the state after the first pass.
\<close>

definition mesh10_light :: model where
  "mesh10_light = mesh10\<lparr>global_forces := [(0, 5, 0), (0, 0, 0)]\<rparr>"

definition light0 :: wstate where
  "light0 = \<lparr>st_K = diag [1, 1, 1, 1, 1, 1], st_Rg = [0, 5, 0, 0, 0, 0], st_U = zeros6,
             st_d = zeros6, st_Q = None, iter_no = 0, printed = [], n_solves = 0\<rparr>"

definition light1 :: wstate where
  "light1 = \<lparr>st_K = diag [1, 1, 1, 1, 1, 1], st_Rg = zeros6, st_U = zeros6,
             st_d = [0, 5, 0, 0, 0, 0], st_Q = Some zeros6, iter_no = 1, printed = [],
             n_solves = 1\<rparr>"

text \<open>
  \<open>mesh10_held\<close> on softening springs: the state on entry, after the first pass and after
  the second pass.
\<close>

definition held0 :: wstate where
  "held0 = \<lparr>st_K = diag [1, 1, 1, 1, 1, 1], st_Rg = [5000, 20, 0, 0, 0, 0], st_U = zeros6,
            st_d = zeros6, st_Q = None, iter_no = 0, printed = [], n_solves = 0\<rparr>"

definition held1 :: wstate where
  "held1 = \<lparr>st_K = diag [1, 1 / 2, 1, 1, 1, 1], st_Rg = [10000, 5, 0, 0, 0, 0], st_U = zeros6,
            st_d = [0, 20, 0, 0, 0, 0], st_Q = Some [-5000, 0, 0, 0, 0, 0], iter_no = 1,
            printed = [], n_solves = 1\<rparr>"

definition held2 :: wstate where
  "held2 = \<lparr>st_K = diag [1, 1 / 2, 1, 1, 1, 1], st_Rg = [15000, 5 / 4, 0, 0, 0, 0], st_U = zeros6,
            st_d = [0, 30, 0, 0, 0, 0], st_Q = Some [-10000, 0, 0, 0, 0, 0], iter_no = 1,
            printed = [ConvergedAt 1], n_solves = 2\<rparr>"

section \<open>The two models\<close>

text \<open>What \<open>Model.create\<close> returns for the two models, and the tables it leaves.\<close>

lemma primary40: "primary_elevations pile40 (Some clay40) [] = [0, -40]"
  by (simp add: primary_elevations_def pile40_def clay40_def pile_data_def pile_row_of_def
      soil_elevations_def pile_bottom_elevation_def np_unique_rev_def)

lemma sub40: "subdivide 10 0 (-40) = Some [-10, -20, -30]"
  by (simp add: subdivide_def find_divider.simps upt_rec)

lemma mesh40_elev: "mesh_elevations pile40 (Some clay40) [] 10 = Some [0, -10, -20, -30, -40]"
  by (simp add: mesh_elevations_def primary40 sub40 np_unique_rev_def)

lemma round3_vals: "round3 0 = 0" "round3 (-10) = -10" "round3 (-20) = -20" "round3 (-30) = -30" "round3 (-40) = -40"
  by (simp_all add: round3_def round_half_even_def)

lemma coords40: "get_coordinates pile40 (Some clay40) [] 10 =
   Some ([0, -10, -20, -30, -40], [(0, -10), (-10, -20), (-20, -30), (-30, -40)])"
  by (simp add: get_coordinates_def mesh40_elev round3_vals)

lemma soil40: "soil_properties_of clay40 [(0, -10), (-10, -20), (-20, -30), (-30, -40)] = Inr
   [\<lparr>x_top = 0, x_bottom = -10, top_soil_layer = Some 0, unit_weight = Some 8, xg_top = 0, xg_bottom = -10,
      sigma_v_top = Some 0, sigma_v_bottom = Some 80\<rparr>,
    \<lparr>x_top = -10, x_bottom = -20, top_soil_layer = Some 0, unit_weight = Some 8, xg_top = -10, xg_bottom = -20,
      sigma_v_top = Some 80, sigma_v_bottom = Some 160\<rparr>,
    \<lparr>x_top = -20, x_bottom = -30, top_soil_layer = Some 0, unit_weight = Some 8, xg_top = -20, xg_bottom = -30,
      sigma_v_top = Some 160, sigma_v_bottom = Some 240\<rparr>,
    \<lparr>x_top = -30, x_bottom = -40, top_soil_layer = Some 0, unit_weight = Some 8, xg_top = -30, xg_bottom = -40,
      sigma_v_top = Some 240, sigma_v_bottom = Some 320\<rparr>]"
  by (simp add: soil_properties_of_def clay40_def get_soil_profile_def merge_asof_forward_def
     np_insert_def Let_def)

lemma match40: "soil_and_pile_bottom_elevation_match pile40 (Some clay40) = Inr ()"
  by (simp add: soil_and_pile_bottom_elevation_match_def pile40_def clay40_def
      pile_bottom_elevation_def soil_bottom_elevation_def)

lemma created40:
  "Model_create pile40 (Some clay40) [] 10 =
     Some (Inr (init_tables (Some clay40) [0, -10, -20, -30, -40]
        [(0, -10), (-10, -20), (-20, -30), (-30, -40)]
        (element_properties_of pile40 [(0, -10), (-10, -20), (-20, -30), (-30, -40)])
        (projr (soil_properties_of clay40 [(0, -10), (-10, -20), (-20, -30), (-30, -40)]))))"
  by (simp add: Model_create_def match40 Model_postinit_def coords40 soil40)

lemma mesh40_fields:
  "soil mesh40 = Some clay40"
  "nodes_x mesh40 = [0, -10, -20, -30, -40]"
  "global_forces mesh40 = [(0, 0, 0), (0, 0, 0), (0, 0, 0), (0, 0, 0), (0, 0, 0)]"
  "global_disp mesh40 = [(0, 0, 0), (0, 0, 0), (0, 0, 0), (0, 0, 0), (0, 0, 0)]"
  "global_restrained mesh40 = [(False, False, False), (False, False, False), (False, False, False),
     (False, False, False), (False, False, False)]"
  by (simp_all add: mesh40_def created40 created_def init_tables_def)

lemma coords10: "get_coordinates pile10 (Some clay10) [] 10 = Some ([0, -10], [(0, -10)])"
proof -
  have p: "primary_elevations pile10 (Some clay10) [] = [0, -10]"
    by (simp add: primary_elevations_def pile10_def clay10_def pile_data_def pile_row_of_def
        soil_elevations_def pile_bottom_elevation_def np_unique_rev_def)
  have s: "subdivide 10 0 (-10) = Some []"
    by (simp add: subdivide_def find_divider.simps)
  show ?thesis
    by (simp add: get_coordinates_def mesh_elevations_def p s np_unique_rev_def round3_vals)
qed

lemma soil10:
  "soil_properties_of clay10 [(0, -10)] = Inr
     [\<lparr>x_top = 0, x_bottom = -10, top_soil_layer = Some 0, unit_weight = Some 8, xg_top = 0,
       xg_bottom = -10, sigma_v_top = Some 0, sigma_v_bottom = Some 80\<rparr>]"
  by (simp add: soil_properties_of_def clay10_def get_soil_profile_def merge_asof_forward_def
     np_insert_def Let_def)

lemma match10: "soil_and_pile_bottom_elevation_match pile10 (Some clay10) = Inr ()"
  by (simp add: soil_and_pile_bottom_elevation_match_def pile10_def clay10_def
      pile_bottom_elevation_def soil_bottom_elevation_def)

lemma created10:
  "Model_create pile10 (Some clay10) [] 10 =
     Some (Inr (init_tables (Some clay10) [0, -10] [(0, -10)]
        (element_properties_of pile10 [(0, -10)])
        (projr (soil_properties_of clay10 [(0, -10)]))))"
  by (simp add: Model_create_def match10 Model_postinit_def coords10 soil10)

lemma mesh10_fields:
  "soil mesh10 = Some clay10"
  "nodes_x mesh10 = [0, -10]"
  "global_forces mesh10 = [(0, 0, 0), (0, 0, 0)]"
  "global_disp mesh10 = [(0, 0, 0), (0, 0, 0)]"
  "global_restrained mesh10 = [(False, False, False), (False, False, False)]"
  by (simp_all add: mesh10_def created10 created_def init_tables_def)

section \<open>Model.create without a soil profile\<close>

lemma validator_without_soil:
  "soil_and_pile_bottom_elevation_match p None = Inl AttributeError"
  by (simp add: soil_and_pile_bottom_elevation_match_def)

lemma Model_create_without_soil:
  "Model_create p None x2mesh coarseness = Some (Inl AttributeError)"
  by (simp add: Model_create_def validator_without_soil)

lemma round3_fives:
  "round3 (-5) = -5" "round3 (-15) = -15" "round3 (-25) = -25" "round3 (-35) = -35"
  by (simp_all add: round3_def round_half_even_def)

lemma get_coordinates_doc_example:
  "get_coordinates pile_doc None [] 5 =
     Some ([0, -5, -10, -15, -20, -25, -30, -35, -40],
           [(0, -5), (-5, -10), (-10, -15), (-15, -20), (-20, -25), (-25, -30), (-30, -35),
            (-35, -40)])"
proof -
  have p: "primary_elevations pile_doc None [] = [0, -10, -40]"
    by (simp add: primary_elevations_def pile_doc_def pile_data_def pile_row_of_def
        np_unique_rev_def)
  have a: "subdivide 5 0 (-10) = Some [-5]"
    by (simp add: subdivide_def find_divider.simps upt_rec)
  have b: "subdivide 5 (-10) (-40) = Some [-15, -20, -25, -30, -35]"
    by (simp add: subdivide_def find_divider.simps upt_rec)
  have m: "mesh_elevations pile_doc None [] 5 = Some [0, -5, -10, -15, -20, -25, -30, -35, -40]"
    by (simp add: mesh_elevations_def p a b np_unique_rev_def)
  show ?thesis
    by (simp add: get_coordinates_def m round3_vals round3_fives)
qed

lemma Model_postinit_doc_example:
  "Model_postinit pile_doc None [] 5 = Some (Inl AttributeError)"
  by (simp add: Model_postinit_def get_coordinates_doc_example)

text \<open>
  Claim C2. The documentation builds a model from a pile and a coarseness alone,
  \<open>Model.create(name="Example without soil", pile=p, coarseness=5)\<close>, and
  \<open>get_coordinates\<close> meshes the pile without a soil profile. The constructor does not get
  that far: with \<open>soil = None\<close> the root validator raises AttributeError, and so would
  \<open>_postinit\<close> after the mesh is built.
\<close>

theorem Model_create_doc_example_raises:
  "Model_create pile_doc None [] 5 = Some (Inl AttributeError)"
  by (rule Model_create_without_soil)

section \<open>The soil table\<close>





































section \<open>The mesh and the coarseness\<close>































section \<open>Boundary-condition setters\<close>

lemma np_where_bound: "i \<in> set (np_where check) \<Longrightarrow> i < length check \<and> check ! i"
  by (simp add: np_where_def)

lemma np_where_any: "np_where check = i # rest \<Longrightarrow> True \<in> set check"
proof -
  assume a: "np_where check = i # rest"
  then have "i \<in> set (np_where check)" by simp
  then have "i < length check \<and> check ! i" by (rule np_where_bound)
  then show ?thesis by (metis nth_mem)
qed

lemma no_match_check:
  "(\<forall>a \<in> set xs. \<not> np_isclose a e (1/1000)) \<Longrightarrow> True \<notin> set (node_check xs e)"
  by (auto simp: node_check_def)

lemma mesh40_where: "np_where (node_check (nodes_x mesh40) (-20)) = [2]"
  by (simp add: mesh40_fields node_check_def np_where_def np_isclose_def upt_rec)

lemma mesh40_any: "True \<in> set (node_check (nodes_x mesh40) (-20))"
  using mesh40_where by (rule np_where_any)

lemma mesh40_load:
  "set_pointload (-20) Py Px Mz mesh40 =
     Inr (mesh40\<lparr>global_forces := [(0,0,0), (0,0,0),
            (assign_if_given Px 0, assign_if_given Py 0, assign_if_given Mz 0), (0,0,0), (0,0,0)]\<rparr>, [])"
  using mesh40_any
  by (simp add: set_pointload_def mesh40_where int_of_array_def)
     (simp add: mesh40_fields)

lemma mesh40_support:
  "set_support (-20) Sy Sx Sz mesh40 =
     Inr (mesh40\<lparr>global_restrained := [(False,False,False), (False,False,False),
            (Sx, Sy, Sz), (False,False,False), (False,False,False)]\<rparr>, [])"
  using mesh40_any
  by (simp add: set_support_def mesh40_where int_of_array_def)
     (simp add: mesh40_fields)


text \<open>
  Claim C7, as the code has it. A setter call whose elevation matches no mesh node is
  rejected: the call returns the model unchanged (force table, prescribed-displacement
  table and restraint mask included) and prints one diagnostic, "outside the mesh" when
  the elevation is above the first or below the last node and "not meshed as a node"
  otherwise. "Matches no node" is the test the code makes, \<open>np.isclose\<close> with
  \<open>atol = 0.001\<close> and numpy's default relative tolerance: no node \<open>a\<close> has
  \<open>|a - elevation| \<le> 0.001 + 1e-5 * |elevation|\<close>.
\<close>

theorem setters_reject_unmatched:
  assumes "\<forall>a \<in> set (nodes_x m). \<not> np_isclose a elevation (1 / 1000)"
      and "nodes_x m \<noteq> []"
  shows "set_pointload elevation Py Px Mz m =
           Inr (m, [if elevation > hd (nodes_x m) \<or> elevation < last (nodes_x m)
                    then LoadOutsideMesh else LoadNotMeshed]) \<and>
         set_pointdisplacement elevation Ty Tx Rz m =
           Inr (m, [if elevation > hd (nodes_x m) \<or> elevation < last (nodes_x m)
                    then SupportOutsideMesh else SupportNotMeshed]) \<and>
         set_support elevation Sy Sx Sz m =
           Inr (m, [if elevation > hd (nodes_x m) \<or> elevation < last (nodes_x m)
                    then SupportOutsideMesh else SupportNotMeshed])"
proof -
  have n: "True \<notin> set (node_check (nodes_x m) elevation)"
    using assms(1) by (rule no_match_check)
  have r: "\<And>a b. not_applied a b elevation m =
        Inr (m, [if elevation > hd (nodes_x m) \<or> elevation < last (nodes_x m) then a else b])"
    using assms(2) by (simp add: not_applied_def split: list.splits)
  show ?thesis
    using n by (simp add: set_pointload_def set_pointdisplacement_def set_support_def r)
qed

theorem setters_reject_unmatched_witness:
  "set_pointload (-50) (Some 200) None None mesh40 = Inr (mesh40, [LoadOutsideMesh]) \<and>
   set_pointdisplacement (-15) (Some 1) None None mesh40 = Inr (mesh40, [SupportNotMeshed]) \<and>
   set_support (-15) True False False mesh40 = Inr (mesh40, [SupportNotMeshed])"
proof -
  have a: "\<forall>a \<in> set (nodes_x mesh40). \<not> np_isclose a (-50) (1 / 1000)"
    by (simp add: mesh40_fields np_isclose_def)
  have b: "\<forall>a \<in> set (nodes_x mesh40). \<not> np_isclose a (-15) (1 / 1000)"
    by (simp add: mesh40_fields np_isclose_def)
  have c: "nodes_x mesh40 \<noteq> []" by (simp add: mesh40_fields)
  have h: "hd (nodes_x mesh40) = 0" "last (nodes_x mesh40) = -40" by (simp_all add: mesh40_fields)
  show ?thesis
    using setters_reject_unmatched[OF a c, of "Some 200" None None]
          setters_reject_unmatched[OF b c, of _ _ _ "Some 1" None None True False False]
    by (simp add: h)
qed


text \<open>
  The claim as stated, with a tolerance of 1 mm, fails: on the mesh with nodes at
  0, -10, -20, -30, -40 the elevation -30.0012 is farther than 1 mm from every node, and
  \<open>set_pointload\<close> still writes the load into the row of the node at -30, since the
  tolerance there is 0.001 + 1e-5 * 30.0012 > 0.0012.
\<close>

theorem setters_1mm_counterexample:
  "list_all (\<lambda>a. \<bar>a - (-30.0012)\<bar> > 1 / 1000) (nodes_x mesh40) \<and>
   set_pointload (-30.0012) (Some 200) None None mesh40 =
     Inr (mesh40\<lparr>global_forces := [(0,0,0), (0,0,0), (0,0,0), (0,200,0), (0,0,0)]\<rparr>, [])"
  by (simp add: mesh40_fields set_pointload_def node_check_def np_where_def
      np_isclose_def int_of_array_def assign_if_given_def upt_rec)

lemma assign_last_given:
  "assign_if_given v2 (assign_if_given v1 old) = last_given v2 v1 old"
  by (simp add: assign_if_given_def last_given_def split: option.splits)

lemma matched_row:
  assumes "np_where (node_check (nodes_x m) e) = [i]" and "wf_tables m"
  shows "True \<in> set (node_check (nodes_x m) e)"
    and "i < length (global_forces m)" and "i < length (global_disp m)"
    and "i < length (global_restrained m)"
proof -
  show "True \<in> set (node_check (nodes_x m) e)" using assms(1) by (rule np_where_any)
  have "i \<in> set (np_where (node_check (nodes_x m) e))" using assms(1) by simp
  then have "i < length (node_check (nodes_x m) e)" using np_where_bound by blast
  then show "i < length (global_forces m)" "i < length (global_disp m)"
    "i < length (global_restrained m)"
    using assms(2) by (simp_all add: wf_tables_def node_check_def)
qed

lemma set_pointload_again:
  assumes "np_where (node_check (nodes_x m) e) = [i]" and "wf_tables m"
      and "global_forces m ! i = (px, py, mz)"
  shows "\<exists>m1. set_pointload e Py1 Px1 Mz1 m = Inr (m1, []) \<and>
           set_pointload e Py2 Px2 Mz2 m1 =
             Inr (m\<lparr>global_forces := (global_forces m)[i :=
                     (last_given Px2 Px1 px, last_given Py2 Py1 py, last_given Mz2 Mz1 mz)]\<rparr>, [])"
  using matched_row[OF assms(1,2)] assms(3)
  by (simp add: set_pointload_def assms(1) int_of_array_def assign_last_given)

lemma set_pointdisplacement_again:
  assumes "np_where (node_check (nodes_x m) e) = [i]" and "wf_tables m"
      and "global_disp m ! i = (tx, ty, rz)"
      and "global_restrained m ! i = (bx, by, bz)"
  shows "\<exists>m1. set_pointdisplacement e Ty1 Tx1 Rz1 m = Inr (m1, []) \<and>
           set_pointdisplacement e Ty2 Tx2 Rz2 m1 =
             Inr (m\<lparr>global_disp := (global_disp m)[i :=
                     (last_given Tx2 Tx1 tx, last_given Ty2 Ty1 ty, last_given Rz2 Rz1 rz)],
                    global_restrained := (global_restrained m)[i :=
                     (last_given (map_option (\<lambda>v. v > 0) Tx2) (map_option (\<lambda>v. v > 0) Tx1) bx,
                      last_given (map_option (\<lambda>v. v > 0) Ty2) (map_option (\<lambda>v. v > 0) Ty1) by,
                      last_given (map_option (\<lambda>v. v > 0) Rz2) (map_option (\<lambda>v. v > 0) Rz1) bz)]\<rparr>, [])"
  using matched_row[OF assms(1,2)] assms(3,4)
  by (simp add: set_pointdisplacement_def assms(1) int_of_array_def assign_last_given)

lemma set_support_again:
  assumes "np_where (node_check (nodes_x m) e) = [i]" and "wf_tables m"
  shows "\<exists>m1. set_support e Sy1 Sx1 Sz1 m = Inr (m1, []) \<and>
           set_support e Sy2 Sx2 Sz2 m1 =
             Inr (m\<lparr>global_restrained := (global_restrained m)[i := (Sx2, Sy2, Sz2)]\<rparr>, [])"
  using matched_row[OF assms(1,2)]
  by (simp add: set_support_def assms(1) int_of_array_def)

text \<open>
  Claim C8, as the code has it. Two calls of a setter at the elevation of node \<open>i\<close> both
  succeed, and afterwards only row \<open>i\<close> of the setter's tables differs from before the
  first call. \<open>set_pointload\<close> and \<open>set_pointdisplacement\<close> write a component only when it
  is given: a component the second call gives holds exactly the second call's value
  (nothing is summed), a component only the first call gave keeps the first call's value,
  and a component neither call gave is as it was; the restraint flag \<open>value > 0\<close> follows
  the same rule. \<open>set_support\<close> writes all three flags on every call, so only the second
  call's flags remain.
\<close>

theorem setter_redeclaration_last_given_wins:
  assumes "np_where (node_check (nodes_x m) e) = [i]" and "wf_tables m"
      and "global_forces m ! i = (px, py, mz)"
      and "global_disp m ! i = (tx, ty, rz)"
      and "global_restrained m ! i = (bx, by, bz)"
  shows "(\<exists>m1. set_pointload e Py1 Px1 Mz1 m = Inr (m1, []) \<and>
           set_pointload e Py2 Px2 Mz2 m1 =
             Inr (m\<lparr>global_forces := (global_forces m)[i :=
                     (last_given Px2 Px1 px, last_given Py2 Py1 py, last_given Mz2 Mz1 mz)]\<rparr>, [])) \<and>
         (\<exists>m1. set_pointdisplacement e Ty1 Tx1 Rz1 m = Inr (m1, []) \<and>
           set_pointdisplacement e Ty2 Tx2 Rz2 m1 =
             Inr (m\<lparr>global_disp := (global_disp m)[i :=
                     (last_given Tx2 Tx1 tx, last_given Ty2 Ty1 ty, last_given Rz2 Rz1 rz)],
                    global_restrained := (global_restrained m)[i :=
                     (last_given (map_option (\<lambda>v. v > 0) Tx2) (map_option (\<lambda>v. v > 0) Tx1) bx,
                      last_given (map_option (\<lambda>v. v > 0) Ty2) (map_option (\<lambda>v. v > 0) Ty1) by,
                      last_given (map_option (\<lambda>v. v > 0) Rz2) (map_option (\<lambda>v. v > 0) Rz1) bz)]\<rparr>, [])) \<and>
         (\<exists>m1. set_support e Sy1 Sx1 Sz1 m = Inr (m1, []) \<and>
           set_support e Sy2 Sx2 Sz2 m1 =
             Inr (m\<lparr>global_restrained := (global_restrained m)[i := (Sx2, Sy2, Sz2)]\<rparr>, []))"
  using set_pointload_again[OF assms(1,2,3)]
        set_pointdisplacement_again[OF assms(1,2,4,5)]
        set_support_again[OF assms(1,2)]
  by blast

lemma mesh40_wf: "wf_tables mesh40"
  by (simp add: wf_tables_def mesh40_fields)

theorem setter_redeclaration_last_given_wins_witness:
  "(\<exists>m1. set_pointload (-20) (Some 200) None (Some 5) mesh40 = Inr (m1, []) \<and>
      set_pointload (-20) (Some 50) (Some 7) None m1 =
        Inr (mesh40\<lparr>global_forces := [(0,0,0), (0,0,0), (7,50,5), (0,0,0), (0,0,0)]\<rparr>, [])) \<and>
   (\<exists>m1. set_pointdisplacement (-20) (Some (5/100)) None (Some (1/100)) mesh40 = Inr (m1, []) \<and>
      set_pointdisplacement (-20) (Some (-2/100)) None None m1 =
        Inr (mesh40\<lparr>global_disp := [(0,0,0), (0,0,0), (0,-2/100,1/100), (0,0,0), (0,0,0)],
                    global_restrained := [(False,False,False), (False,False,False),
                       (False,False,True), (False,False,False), (False,False,False)]\<rparr>, [])) \<and>
   (\<exists>m1. set_support (-20) True True False mesh40 = Inr (m1, []) \<and>
      set_support (-20) False True False m1 =
        Inr (mesh40\<lparr>global_restrained := [(False,False,False), (False,False,False),
                       (True,False,False), (False,False,False), (False,False,False)]\<rparr>, []))"
  using setter_redeclaration_last_given_wins[OF mesh40_where mesh40_wf,
          of 0 0 0 0 0 0 False False False
             "Some 200" None "Some 5" "Some 50" "Some 7" None
             "Some (5/100)" None "Some (1/100)" "Some (-2/100)" None None
             True True False False True False]
  by (simp add: mesh40_fields last_given_def)

text \<open>
  Against claim C8 as worded: after \<open>set_pointload(-20, Py=200, Mz=5)\<close> and
  \<open>set_pointload(-20, Py=50)\<close> on the 40 m model the row of node 2 holds
  \<open>(Px, Py, Mz) = (0, 50, 5)\<close>: the moment of the first declaration is still in effect,
  where the second declaration alone leaves \<open>(0, 50, 0)\<close>.
\<close>

theorem setter_redeclaration_counterexample:
  "\<exists>m1. set_pointload (-20) (Some 200) None (Some 5) mesh40 = Inr (m1, []) \<and>
     map_sum id (\<lambda>r. global_forces (fst r) ! 2) (set_pointload (-20) (Some 50) None None m1) =
       Inr (0, 50, 5) \<and>
     map_sum id (\<lambda>r. global_forces (fst r) ! 2) (set_pointload (-20) (Some 50) None None mesh40) =
       Inr (0, 50, 0)"
proof -
  have f: "global_forces mesh40 ! 2 = (0, 0, 0)" by (simp add: mesh40_fields)
  from set_pointload_again[OF mesh40_where mesh40_wf f, of "Some 200" None "Some 5" "Some 50" None None]
  obtain m1 where m1: "set_pointload (-20) (Some 200) None (Some 5) mesh40 = Inr (m1, [])"
    "set_pointload (-20) (Some 50) None None m1 =
       Inr (mesh40\<lparr>global_forces := (global_forces mesh40)[2 := (0, 50, 5)]\<rparr>, [])"
    by (auto simp: last_given_def)
  have a: "map_sum id (\<lambda>r. global_forces (fst r) ! 2) (set_pointload (-20) (Some 50) None None m1) =
       Inr (0, 50, 5)"
    by (simp add: m1(2) mesh40_fields)
  have b: "map_sum id (\<lambda>r. global_forces (fst r) ! 2) (set_pointload (-20) (Some 50) None None mesh40) =
       Inr (0, 50, 0)"
    by (simp add: mesh40_load assign_if_given_def)
  show ?thesis using m1(1) a b by blast
qed


text \<open>
  Claim C9. When \<open>set_pointdisplacement\<close> matches node \<open>i\<close>, every component given is
  recorded in the prescribed-displacement table, and its restraint flag becomes
  \<open>value > 0\<close>: set exactly for a strictly positive value, cleared for zero and negative
  values. A component not given leaves both cells as they were.
\<close>

theorem set_pointdisplacement_restrains_iff_positive:
  assumes "np_where (node_check (nodes_x m) elevation) = [i]" and "wf_tables m"
  shows "\<exists>m'. set_pointdisplacement elevation Ty Tx Rz m = Inr (m', []) \<and>
     (case Tx of
        Some v \<Rightarrow> fst (global_disp m' ! i) = v \<and> (fst (global_restrained m' ! i) \<longleftrightarrow> v > 0)
      | None \<Rightarrow> fst (global_disp m' ! i) = fst (global_disp m ! i) \<and>
                fst (global_restrained m' ! i) = fst (global_restrained m ! i)) \<and>
     (case Ty of
        Some v \<Rightarrow> fst (snd (global_disp m' ! i)) = v \<and> (fst (snd (global_restrained m' ! i)) \<longleftrightarrow> v > 0)
      | None \<Rightarrow> fst (snd (global_disp m' ! i)) = fst (snd (global_disp m ! i)) \<and>
                fst (snd (global_restrained m' ! i)) = fst (snd (global_restrained m ! i))) \<and>
     (case Rz of
        Some v \<Rightarrow> snd (snd (global_disp m' ! i)) = v \<and> (snd (snd (global_restrained m' ! i)) \<longleftrightarrow> v > 0)
      | None \<Rightarrow> snd (snd (global_disp m' ! i)) = snd (snd (global_disp m ! i)) \<and>
                snd (snd (global_restrained m' ! i)) = snd (snd (global_restrained m ! i)))"
proof -
  have any: "True \<in> set (node_check (nodes_x m) elevation)"
    using assms(1) by (rule np_where_any)
  have "i \<in> set (np_where (node_check (nodes_x m) elevation))"
    using assms(1) by simp
  then have "i < length (node_check (nodes_x m) elevation)"
    using np_where_bound by blast
  then have len: "i < length (global_disp m)" "i < length (global_restrained m)"
    using assms(2) by (simp_all add: wf_tables_def node_check_def)
  show ?thesis
    using any len
    by (simp add: set_pointdisplacement_def assms(1) int_of_array_def assign_if_given_def
        split: option.splits prod.splits)
qed

theorem set_pointdisplacement_restrains_iff_positive_witness:
  "\<exists>m'. set_pointdisplacement (-20) (Some (-0.05)) (Some 0) (Some 0.01) mesh40 = Inr (m', []) \<and>
     global_disp m' ! 2 = (0, -0.05, 0.01) \<and>
     global_restrained m' ! 2 = (False, False, True)"
proof -
  have w: "wf_tables mesh40" by (simp add: wf_tables_def mesh40_fields)
  from set_pointdisplacement_restrains_iff_positive[OF mesh40_where w, of "Some (-0.05)" "Some 0" "Some 0.01"]
  obtain m' where m': "set_pointdisplacement (-20) (Some (-0.05)) (Some 0) (Some 0.01) mesh40 = Inr (m', [])"
     "fst (global_disp m' ! 2) = 0" "\<not> fst (global_restrained m' ! 2)"
     "fst (snd (global_disp m' ! 2)) = -0.05" "\<not> fst (snd (global_restrained m' ! 2))"
     "snd (snd (global_disp m' ! 2)) = 0.01" "snd (snd (global_restrained m' ! 2))"
    by auto
  have "global_disp m' ! 2 = (0, -0.05, 0.01)"
    using m'(2,4,6) by (metis prod.collapse)
  moreover have "global_restrained m' ! 2 = (False, False, True)"
    using m'(3,5,7) by (metis prod.collapse)
  ultimately show ?thesis using m'(1) by blast
qed


section \<open>The Winkler loop\<close>

lemma pass_None:
  "solve_equations k (st_K s) (st_Rg s) (st_U s) supports = None \<Longrightarrow>
   winkler_pass k m F supports s =
     Break (s\<lparr>printed := printed s @ [CannotConverge], n_solves := Suc (n_solves s)\<rparr>)"
  by (simp add: winkler_pass_def)

lemma pass_Some:
  assumes "solve_equations k (st_K s) (st_Rg s) (st_U s) supports = Some (u_inc, Q)"
      and "d = vadd (st_d s) u_inc"
      and "Rg = vadd (vsub F Q) (map uminus (mat_vec (build_stiffness_matrix k m d Secant) d))"
  shows "winkler_pass k m F supports s =
     (if np_norm (unrestrained Rg supports) < 1 / 10000 * np_norm (vsub F Q) \<and> iter_no s > 0
      then Break (s\<lparr>st_Rg := Rg, st_d := d, st_Q := Some Q, n_solves := Suc (n_solves s),
                    printed := printed s @ [ConvergedAt (iter_no s)]\<rparr>)
      else EndOfBody (s\<lparr>st_Rg := Rg, st_d := d, st_Q := Some Q, n_solves := Suc (n_solves s),
                        printed := (if iter_no s = 100 then printed s @ [NotConverged100]
                                    else printed s),
                        st_K := build_stiffness_matrix k m d Tangent,
                        st_U := map (\<lambda>_. 0) (st_U s),
                        iter_no := iter_no s + 1\<rparr>))"
  using assms by (simp add: winkler_pass_def Let_def)

text \<open>
  Claim C1, as the code has it. A pass declares convergence exactly when the solver
  returned, the norm of the new residual \<open>Rg\<close> over the unrestrained degrees of freedom is
  below \<open>1e-4\<close> times \<open>control\<close>, and \<open>iter_no\<close> is at least 1. \<open>control\<close> is the norm of
  \<open>F_ext = F - Q\<close> for the reactions \<open>Q\<close> this pass's solve returned: it is computed anew
  in every pass. At iteration 0 the test is not accepted whatever the residual.
\<close>

theorem convergence_declared_iff:
  "convergence_declared s (winkler_pass k m F supports s) \<longleftrightarrow>
     (\<exists>u_inc Q.
        solve_equations k (st_K s) (st_Rg s) (st_U s) supports = Some (u_inc, Q) \<and>
        np_norm (unrestrained
                   (vadd (vsub F Q)
                      (map uminus (mat_vec (build_stiffness_matrix k m (vadd (st_d s) u_inc) Secant)
                                     (vadd (st_d s) u_inc))))
                   supports)
          < 1 / 10000 * np_norm (vsub F Q) \<and>
        1 \<le> iter_no s)"
proof (cases "solve_equations k (st_K s) (st_Rg s) (st_U s) supports")
  case None
  then show ?thesis by (simp add: pass_None convergence_declared_def)
next
  case (Some r)
  obtain u_inc Q where r: "r = (u_inc, Q)" by (cases r)
  show ?thesis
    using Some unfolding r
    by (auto simp add: pass_Some[OF Some[unfolded r] refl refl] convergence_declared_def)
qed

lemma after_passes_loop:
  "after_passes k m F supports max_iter n s = Some s' \<Longrightarrow>
   winkler_loop k m F supports max_iter s = winkler_loop k m F supports max_iter s'"
proof (induction n arbitrary: s)
  case 0
  then show ?case by simp
next
  case (Suc n)
  from Suc.prems obtain s1 where
    a: "iter_no s \<le> max_iter" and b: "winkler_pass k m F supports s = EndOfBody s1"
    and c: "after_passes k m F supports max_iter n s1 = Some s'"
    by (auto split: if_splits pass_end.splits)
  have "winkler_loop k m F supports max_iter s = winkler_loop k m F supports max_iter s1"
    using a b by (subst winkler_loop.simps) simp
  then show ?case using Suc.IH[OF c] by simp
qed

lemma pass_end_Q:
  "winkler_pass k m F supports s = EndOfBody s' \<Longrightarrow> st_Q s' \<noteq> None"
  by (auto simp: winkler_pass_def Let_def split: option.splits prod.splits if_splits)

lemma after_passes_Q:
  "after_passes k m F supports max_iter n s = Some s' \<Longrightarrow> 0 < n \<or> st_Q s \<noteq> None \<Longrightarrow> st_Q s' \<noteq> None"
proof (induction n arbitrary: s)
  case 0
  then show ?case by simp
next
  case (Suc n)
  from Suc.prems obtain s1 where
    b: "winkler_pass k m F supports s = EndOfBody s1"
    and c: "after_passes k m F supports max_iter n s1 = Some s'"
    by (auto split: if_splits pass_end.splits)
  show ?case using Suc.IH[OF c] pass_end_Q[OF b] by simp
qed

lemma after_passes_iter:
  "after_passes k m F supports max_iter n s = Some s' \<Longrightarrow> iter_no s' = iter_no s + int n"
proof (induction n arbitrary: s)
  case 0
  then show ?case by simp
next
  case (Suc n)
  from Suc.prems obtain s1 where
    b: "winkler_pass k m F supports s = EndOfBody s1"
    and c: "after_passes k m F supports max_iter n s1 = Some s'"
    by (auto split: if_splits pass_end.splits)
  show ?case using Suc.IH[OF c] winkler_pass_bumps[OF b] by simp
qed

text \<open>
  Claim C3, as the code has it. When \<open>solve_equations\<close> raises LinAlgError in a pass after
  at least one completed pass, the loop ends at once (no further solve; the state is the
  one the pass started from, with the diagnostic printed), and the analysis returns
  normally: its result is built from the displacement accumulated so far and the
  reactions of the previous pass.
\<close>

theorem singular_solve_ends_loop_with_result:
  assumes "soil m = Some sp"
      and "F = mesh_to_global_force_dof_vector k (global_forces m)"
      and "supports = mesh_to_global_restrained_dof_vector k (global_restrained m)"
      and "after_passes k m F supports max_iter n (winkler_init k m) = Some s"
      and "0 < n"
      and "iter_no s \<le> max_iter"
      and "solve_equations k (st_K s) (st_Rg s) (st_U s) supports = None"
  shows "winkler_loop k m F supports max_iter s =
           s\<lparr>printed := printed s @ [CannotConverge], n_solves := Suc (n_solves s)\<rparr> \<and>
         (\<exists>Q. st_Q s = Some Q \<and>
           simple_winkler_analysis k m max_iter =
             (Inr (Some \<lparr>res_d = st_d s, res_q_int = pile_internal_forces k m (st_d s), res_Q = Q\<rparr>),
              printed s @ [CannotConverge]))"
proof -
  have l: "winkler_loop k m F supports max_iter s =
           s\<lparr>printed := printed s @ [CannotConverge], n_solves := Suc (n_solves s)\<rparr>"
    using assms(6) pass_None[OF assms(7)] by (subst winkler_loop.simps) simp
  obtain Q where Q: "st_Q s = Some Q"
    using after_passes_Q[OF assms(4)] assms(5) by auto
  have "winkler_loop k m F supports max_iter (winkler_init k m) =
        s\<lparr>printed := printed s @ [CannotConverge], n_solves := Suc (n_solves s)\<rparr>"
    using after_passes_loop[OF assms(4)] l by simp
  then have "simple_winkler_analysis k m max_iter =
             (Inr (Some \<lparr>res_d = st_d s, res_q_int = pile_internal_forces k m (st_d s), res_Q = Q\<rparr>),
              printed s @ [CannotConverge])"
    using assms(1) Q
    by (simp add: simple_winkler_analysis_def Let_def assms(2)[symmetric] assms(3)[symmetric]
        winkler_results_def)
  then show ?thesis using l Q by simp
qed

text \<open>
  Claim C10. On a model whose soil profile is \<open>None\<close> the analysis raises nothing, prints
  nothing and returns \<open>None\<close>.
\<close>

theorem winkler_without_soil_returns_None:
  "soil m = None \<Longrightarrow> simple_winkler_analysis k m max_iter = (Inr None, [])"
  by (simp add: simple_winkler_analysis_def)









lemma upt6: "[0..<6] = [0, 1, 2, 3, 4, 5]"
  by (simp add: upt_rec)

lemma diag6:
  "diag [a, b, c, d, e, f] =
     [[a, 0, 0, 0, 0, 0], [0, b, 0, 0, 0, 0], [0, 0, c, 0, 0, 0],
      [0, 0, 0, d, 0, 0], [0, 0, 0, 0, e, 0], [0, 0, 0, 0, 0, f]]"
  by (simp add: diag_def upt6)

lemma solve6:
  "spring_solve (diag [a, b, c, d, e, f]) [f0, f1, f2, f3, f4, f5] [u0, u1, u2, u3, u4, u5]
     [r, False, False, False, False, False] =
   (if (\<not> r \<and> a = 0) \<or> b = 0 \<or> c = 0 \<or> d = 0 \<or> e = 0 \<or> f = 0 then None
    else Some ([if r then u0 else f0 / a, f1 / b, f2 / c, f3 / d, f4 / e, f5 / f],
               [if r then a * u0 - f0 else 0, 0, 0, 0, 0, 0]))"
  by (simp add: spring_solve_def diag6 upt6)

lemma matvec6:
  "mat_vec (diag [a, b, c, d, e, f]) [x0, x1, x2, x3, x4, x5] =
     [a * x0, b * x1, c * x2, d * x3, e * x4, f * x5]"
  by (simp add: mat_vec_def diag6)

lemma spring_fields:
  "mesh_to_global_force_dof_vector (spring_kernel k0 ks kt) [(a, b, c), (d, e, f)] = [a, b, c, d, e, f]"
  "mesh_to_global_disp_dof_vector (spring_kernel k0 ks kt) [(a, b, c), (d, e, f)] = [a, b, c, d, e, f]"
  "mesh_to_global_restrained_dof_vector (spring_kernel k0 ks kt) [(r0, r1, r2), (r3, r4, r5)] =
     [r0, r1, r2, r3, r4, r5]"
  "build_stiffness_matrix (spring_kernel k0 ks kt) m [x0, x1, x2, x3, x4, x5] Initial =
     diag [k0, k0, k0, k0, k0, k0]"
  "build_stiffness_matrix (spring_kernel k0 ks kt) m [x0, x1, x2, x3, x4, x5] Secant =
     diag [ks x0, ks x1, ks x2, ks x3, ks x4, ks x5]"
  "build_stiffness_matrix (spring_kernel k0 ks kt) m [x0, x1, x2, x3, x4, x5] Tangent =
     diag [kt x0, kt x1, kt x2, kt x3, kt x4, kt x5]"
  "solve_equations (spring_kernel k0 ks kt) = spring_solve"
  "pile_internal_forces (spring_kernel k0 ks kt) m [x0, x1, x2, x3, x4, x5] = [0, 0, 0, 0, 0, 0]"
  by (simp_all add: spring_kernel_def)

lemma plastic_values:
  "plastic_secant 0 = 1" "plastic_tangent 0 = 1" "plastic_secant 20 = 1 / 2" "plastic_tangent 20 = 0"
  by (simp_all add: plastic_secant_def plastic_tangent_def)

lemma soft_values:
  "soft_secant 0 = 1" "soft_tangent 0 = 1" "soft_secant 20 = 3 / 4" "soft_tangent 20 = 1 / 2"
  "soft_secant 30 = 5 / 8"
  by (simp_all add: soft_secant_def soft_tangent_def soft_resistance_def)

lemmas plastic_fields = spring_fields[of 1 plastic_secant plastic_tangent, folded plastic_springs_def]

lemmas soft_fields = spring_fields[of 1 soft_secant soft_tangent, folded soft_springs_def]

lemma lateral_init:
  "winkler_init plastic_springs mesh10_lateral = lateral0"
  by (simp add: winkler_init_def mesh10_lateral_def mesh10_fields Let_def plastic_fields lateral0_def)

lemma lateral_pass0:
  "winkler_pass plastic_springs mesh10_lateral [0, 20, 0, 0, 0, 0]
     [False, False, False, False, False, False] lateral0 =
   EndOfBody lateral1"
  by (subst pass_Some[where u_inc = "[0, 20, 0, 0, 0, 0]" and Q = "[0, 0, 0, 0, 0, 0]", OF _ refl refl])
     (simp_all add: lateral0_def plastic_fields solve6 vadd_def vsub_def matvec6
       plastic_values lateral1_def)

lemma lateral_fail:
  "solve_equations plastic_springs (st_K lateral1) (st_Rg lateral1) (st_U lateral1)
     [False, False, False, False, False, False] = None"
  by (simp add: lateral1_def plastic_fields solve6)

lemma lateral_loop:
  "winkler_loop plastic_springs mesh10_lateral [0, 20, 0, 0, 0, 0] all_free 100 lateral0 =
     lateral1\<lparr>printed := [CannotConverge], n_solves := 2\<rparr>"
proof -
  have a: "winkler_loop plastic_springs mesh10_lateral [0, 20, 0, 0, 0, 0] all_free 100 lateral0 =
           winkler_loop plastic_springs mesh10_lateral [0, 20, 0, 0, 0, 0] all_free 100 lateral1"
    by (subst winkler_loop.simps) (simp add: lateral_pass0, simp add: lateral0_def)
  have b: "winkler_loop plastic_springs mesh10_lateral [0, 20, 0, 0, 0, 0] all_free 100 lateral1 =
           lateral1\<lparr>printed := [CannotConverge], n_solves := 2\<rparr>"
    by (subst winkler_loop.simps) (simp add: pass_None[OF lateral_fail], simp add: lateral1_def)
  show ?thesis using a b by simp
qed

lemma lateral_model:
  "soil mesh10_lateral = Some clay10"
  "mesh_to_global_force_dof_vector plastic_springs (global_forces mesh10_lateral) = [0, 20, 0, 0, 0, 0]"
  "mesh_to_global_restrained_dof_vector plastic_springs (global_restrained mesh10_lateral) = all_free"
  by (simp_all add: mesh10_lateral_def mesh10_fields plastic_fields)

lemma lateral_analysis:
  "simple_winkler_analysis plastic_springs mesh10_lateral 100 =
     (Inr (Some \<lparr>res_d = [0, 20, 0, 0, 0, 0], res_q_int = zeros6, res_Q = zeros6\<rparr>), [CannotConverge])"
  by (simp add: simple_winkler_analysis_def lateral_model lateral_init lateral_loop Let_def
        winkler_results_def lateral1_def plastic_fields)

text \<open>
  The claim as stated fails: with a lateral load of 20 on plastic springs of capacity 10
  the solver raises in the second pass, and the analysis still returns a result, holding
  the displacement of the first pass.
\<close>

theorem singular_solve_counterexample:
  "fst (simple_winkler_analysis plastic_springs mesh10_lateral 100) =
     Inr (Some \<lparr>res_d = [0, 20, 0, 0, 0, 0], res_q_int = zeros6, res_Q = zeros6\<rparr>)"
  by (simp add: lateral_analysis)

theorem singular_solve_ends_loop_with_result_witness:
  "winkler_loop plastic_springs mesh10_lateral [0, 20, 0, 0, 0, 0] all_free 100 lateral1 =
     lateral1\<lparr>printed := [CannotConverge], n_solves := 2\<rparr> \<and>
   simple_winkler_analysis plastic_springs mesh10_lateral 100 =
     (Inr (Some \<lparr>res_d = [0, 20, 0, 0, 0, 0], res_q_int = zeros6, res_Q = zeros6\<rparr>), [CannotConverge])"
proof -
  note 1 = lateral_model(1) and 2 = lateral_model(2)[symmetric] and 3 = lateral_model(3)[symmetric]
  have 4: "after_passes plastic_springs mesh10_lateral [0, 20, 0, 0, 0, 0] all_free 100 1
             (winkler_init plastic_springs mesh10_lateral) = Some lateral1"
    by (simp add: lateral_init lateral_pass0) (simp add: lateral0_def)
  have 5: "iter_no lateral1 \<le> 100" by (simp add: lateral1_def)
  show ?thesis
    using singular_solve_ends_loop_with_result[OF 1 2 3 4 _ 5 lateral_fail]
    by (simp add: lateral1_def plastic_fields)
qed

theorem winkler_without_soil_returns_None_witness:
  "simple_winkler_analysis plastic_springs (mesh40\<lparr>soil := None\<rparr>) 100 = (Inr None, [])"
  using winkler_without_soil_returns_None[of "mesh40\<lparr>soil := None\<rparr>" plastic_springs 100]
  by simp








lemma plastic_values5: "plastic_secant 5 = 1" "plastic_tangent 5 = 1"
  by (simp_all add: plastic_secant_def plastic_tangent_def)

lemma light_init: "winkler_init plastic_springs mesh10_light = light0"
  by (simp add: winkler_init_def mesh10_light_def mesh10_fields Let_def
      plastic_fields light0_def)

lemma light_solve0:
  "solve_equations plastic_springs (st_K light0) (st_Rg light0) (st_U light0) all_free =
     Some ([0, 5, 0, 0, 0, 0], zeros6)"
  by (simp add: light0_def plastic_fields solve6)

lemma light_solve1:
  "solve_equations plastic_springs (st_K light1) (st_Rg light1) (st_U light1) all_free =
     Some (zeros6, zeros6)"
  by (simp add: light1_def plastic_fields solve6)

lemma light_residual:
  "vadd (vsub [0, 5, 0, 0, 0, 0] zeros6)
     (map uminus (mat_vec (build_stiffness_matrix plastic_springs mesh10_light [0, 5, 0, 0, 0, 0] Secant)
                    [0, 5, 0, 0, 0, 0])) = zeros6"
  by (simp add: plastic_fields vadd_def vsub_def matvec6 plastic_values plastic_values5)

lemma light_test:
  "np_norm (unrestrained zeros6 all_free) < 1 / 10000 * np_norm (vsub [0, 5, 0, 0, 0, 0] zeros6)"
  by (simp add: unrestrained_def np_norm_def vsub_def)

lemma light_d0: "vadd (st_d light0) [0, 5, 0, 0, 0, 0] = [0, 5, 0, 0, 0, 0]"
  by (simp add: light0_def vadd_def)

lemma light_d1: "vadd (st_d light1) zeros6 = [0, 5, 0, 0, 0, 0]"
  by (simp add: light1_def vadd_def)

lemma light_pass0:
  "winkler_pass plastic_springs mesh10_light [0, 5, 0, 0, 0, 0] all_free light0 = EndOfBody light1"
  by (subst pass_Some[OF light_solve0 refl refl])
     (simp add: light_d0 light_residual,
      simp add: light0_def light1_def plastic_fields plastic_values5 plastic_values)

lemma light_pass1:
  "winkler_pass plastic_springs mesh10_light [0, 5, 0, 0, 0, 0] all_free light1 =
     Break (light1\<lparr>n_solves := 2, printed := [ConvergedAt 1]\<rparr>)"
  using light_test
  by (subst pass_Some[OF light_solve1 refl refl])
     (simp add: light_d1 light_residual, simp add: light1_def)

lemma held_init: "winkler_init soft_springs mesh10_held = held0"
  by (simp add: winkler_init_def mesh10_held_def mesh10_fields Let_def
      soft_fields held0_def)

lemma held_solve0:
  "solve_equations soft_springs (st_K held0) (st_Rg held0) (st_U held0) head_held =
     Some ([0, 20, 0, 0, 0, 0], [-5000, 0, 0, 0, 0, 0])"
  by (simp add: held0_def soft_fields solve6)

lemma held_solve1:
  "solve_equations soft_springs (st_K held1) (st_Rg held1) (st_U held1) head_held =
     Some ([0, 10, 0, 0, 0, 0], [-10000, 0, 0, 0, 0, 0])"
  by (simp add: held1_def soft_fields solve6)

lemma held_residual0:
  "vadd (vsub [5000, 20, 0, 0, 0, 0] [-5000, 0, 0, 0, 0, 0])
     (map uminus (mat_vec (build_stiffness_matrix soft_springs mesh10_held [0, 20, 0, 0, 0, 0] Secant)
                    [0, 20, 0, 0, 0, 0])) = [10000, 5, 0, 0, 0, 0]"
  by (simp add: soft_fields vadd_def vsub_def matvec6 soft_values)

lemma held_residual1:
  "vadd (vsub [5000, 20, 0, 0, 0, 0] [-10000, 0, 0, 0, 0, 0])
     (map uminus (mat_vec (build_stiffness_matrix soft_springs mesh10_held [0, 30, 0, 0, 0, 0] Secant)
                    [0, 30, 0, 0, 0, 0])) = [15000, 5 / 4, 0, 0, 0, 0]"
  by (simp add: soft_fields vadd_def vsub_def matvec6 soft_values)

lemma held_norms:
  "np_norm (unrestrained [15000, 5 / 4, 0, 0, 0, 0] head_held) = 5 / 4"
  "np_norm (vsub [5000, 20, 0, 0, 0, 0] [-10000, 0, 0, 0, 0, 0]) = sqrt 225000400"
  "np_norm (vsub [5000, 20, 0, 0, 0, 0] [-5000, 0, 0, 0, 0, 0]) = sqrt 100000400"
  by (simp_all add: unrestrained_def np_norm_def vsub_def real_sqrt_divide)

lemma held_test_now:
  "np_norm (unrestrained [15000, 5 / 4, 0, 0, 0, 0] head_held)
     < 1 / 10000 * np_norm (vsub [5000, 20, 0, 0, 0, 0] [-10000, 0, 0, 0, 0, 0])"
proof -
  have "12500 < sqrt 225000400" by (rule real_less_rsqrt) simp
  then show ?thesis by (simp add: held_norms)
qed

lemma held_test_first:
  "\<not> np_norm (unrestrained [15000, 5 / 4, 0, 0, 0, 0] head_held)
       < 1 / 10000 * np_norm (vsub [5000, 20, 0, 0, 0, 0] [-5000, 0, 0, 0, 0, 0])"
proof -
  have "sqrt 100000400 \<le> 12500" by (rule real_le_lsqrt) simp_all
  then show ?thesis by (simp add: held_norms)
qed

lemma held_d0: "vadd (st_d held0) [0, 20, 0, 0, 0, 0] = [0, 20, 0, 0, 0, 0]"
  by (simp add: held0_def vadd_def)

lemma held_pass0:
  "winkler_pass soft_springs mesh10_held [5000, 20, 0, 0, 0, 0] head_held held0 = EndOfBody held1"
  by (subst pass_Some[OF held_solve0 refl refl])
     (simp add: held_d0 held_residual0,
      simp add: held0_def held1_def soft_fields soft_values)

lemma held_d1: "vadd (st_d held1) [0, 10, 0, 0, 0, 0] = [0, 30, 0, 0, 0, 0]"
  by (simp add: held1_def vadd_def)

lemma held_pass1:
  "winkler_pass soft_springs mesh10_held [5000, 20, 0, 0, 0, 0] head_held held1 = Break held2"
  using held_test_now
  by (subst pass_Some[OF held_solve1 refl refl])
     (simp add: held_d1 held_residual1, simp add: held1_def held2_def)

theorem convergence_declared_iff_witness:
  "np_norm (unrestrained (st_Rg light1) all_free)
     < 1 / 10000 * np_norm (vsub [0, 5, 0, 0, 0, 0] zeros6) \<and>
   \<not> convergence_declared light0
       (winkler_pass plastic_springs mesh10_light [0, 5, 0, 0, 0, 0] all_free light0) \<and>
   convergence_declared light1
       (winkler_pass plastic_springs mesh10_light [0, 5, 0, 0, 0, 0] all_free light1)"
proof -
  have a: "\<not> 1 \<le> iter_no light0" by (simp add: light0_def)
  have b: "1 \<le> iter_no light1" by (simp add: light1_def)
  have r: "st_Rg light1 = zeros6" by (simp add: light1_def)
  have c: "solve_equations plastic_springs (st_K light1) (st_Rg light1) (st_U light1) all_free =
             Some (zeros6, zeros6) \<and>
           np_norm (unrestrained
              (vadd (vsub [0, 5, 0, 0, 0, 0] zeros6)
                 (map uminus (mat_vec (build_stiffness_matrix plastic_springs mesh10_light
                                         (vadd (st_d light1) zeros6) Secant)
                                (vadd (st_d light1) zeros6))))
              all_free)
             < 1 / 10000 * np_norm (vsub [0, 5, 0, 0, 0, 0] zeros6) \<and>
           1 \<le> iter_no light1"
    using light_solve1 light_test b by (simp add: light_d1 light_residual)
  have n0: "\<not> convergence_declared light0
       (winkler_pass plastic_springs mesh10_light [0, 5, 0, 0, 0, 0] all_free light0)"
    using convergence_declared_iff[of light0 plastic_springs mesh10_light "[0, 5, 0, 0, 0, 0]" all_free] a
    by blast
  have n1: "convergence_declared light1
       (winkler_pass plastic_springs mesh10_light [0, 5, 0, 0, 0, 0] all_free light1)"
    using convergence_declared_iff[of light1 plastic_springs mesh10_light "[0, 5, 0, 0, 0, 0]" all_free] c
    by blast
  have t: "np_norm (unrestrained (st_Rg light1) all_free)
     < 1 / 10000 * np_norm (vsub [0, 5, 0, 0, 0, 0] zeros6)"
    using light_test by (simp only: r)
  show ?thesis using n0 n1 t by blast
qed

text \<open>
  The claim as stated, with the external force of the first iteration as the reference,
  fails. On \<open>mesh10_held\<close> the reaction at the held head grows from 5000 in the first
  pass to 10000 in the second, and \<open>control\<close> with it. The second pass leaves a residual of
  1.25 on the free degrees of freedom: above \<open>1e-4\<close> times the first pass's external force
  (norm about 10000), below \<open>1e-4\<close> times the second pass's (norm about 15000), and the
  pass declares convergence.
\<close>

theorem convergence_first_iteration_counterexample:
  "winkler_init soft_springs mesh10_held = held0 \<and>
   winkler_pass soft_springs mesh10_held [5000, 20, 0, 0, 0, 0] head_held held0 = EndOfBody held1 \<and>
   st_Q held1 = Some [-5000, 0, 0, 0, 0, 0] \<and>
   winkler_pass soft_springs mesh10_held [5000, 20, 0, 0, 0, 0] head_held held1 = Break held2 \<and>
   convergence_declared held1 (Break held2) \<and>
   \<not> np_norm (unrestrained (st_Rg held2) head_held)
       < 1 / 10000 * np_norm (vsub [5000, 20, 0, 0, 0, 0] [-5000, 0, 0, 0, 0, 0])"
proof -
  have "st_Rg held2 = [15000, 5 / 4, 0, 0, 0, 0]" by (simp add: held2_def)
  moreover have "st_Q held1 = Some [-5000, 0, 0, 0, 0, 0]" by (simp add: held1_def)
  moreover have "convergence_declared held1 (Break held2)"
    by (simp add: convergence_declared_def held1_def held2_def)
  ultimately show ?thesis
    using held_init held_pass0 held_pass1 held_test_first by simp
qed

end
